theory Spec2Isabelle
  imports Complex_Main
begin

section \<open>Strings and numbers of the JavaScript source\<close>

text \<open>
  A JavaScript string is modelled as a \<^typ>\<open>string\<close> whose characters are the code units
  of the source string (code units below 256; bearer tokens, paths and answer labels are
  ASCII). \<open>undefined\<close> and \<open>null\<close> are \<open>None\<close> of an option type.
\<close>

text \<open>\<open>if (x)\<close> on a value that is a string, \<open>null\<close> or \<open>undefined\<close>.\<close>

definition js_truthy :: "string option \<Rightarrow> bool" where
  "js_truthy v = (case v of None \<Rightarrow> False | Some s \<Rightarrow> s \<noteq> [])"

text \<open>\<open>s.charAt(0)\<close>: the first code unit as a string, the empty string when there is none.\<close>

definition charAt0 :: "string \<Rightarrow> string" where
  "charAt0 s = take 1 s"

text \<open>
  The white space and line terminators that \<open>String.prototype.trim\<close> strips, among the
  code units below 256: TAB, LF, VT, FF, CR, SPACE and NBSP.
\<close>

definition js_whitespace :: "char \<Rightarrow> bool" where
  "js_whitespace c =
     (c \<in> set [CHR 0x09, CHR 0x0A, CHR 0x0B, CHR 0x0C, CHR 0x0D, CHR 0x20, CHR 0xA0])"

definition trim :: "string \<Rightarrow> string" where
  "trim s = rev (dropWhile js_whitespace (rev (dropWhile js_whitespace s)))"

text \<open>\<open>s.startsWith(sub)\<close> and \<open>s.includes(sub)\<close>.\<close>

definition startsWith :: "string \<Rightarrow> string \<Rightarrow> bool" where
  "startsWith s sub = (take (length sub) s = sub)"

fun includes_str :: "string \<Rightarrow> string \<Rightarrow> bool" where
  "includes_str [] sub = (sub = [])"
| "includes_str (c # cs) sub = (startsWith (c # cs) sub \<or> includes_str cs sub)"

text \<open>
  A JavaScript number as far as the quiz score needs it: a quotient of two counts. The
  division of two non-negative integers is the exact quotient (the source gets the nearest
  double), \<open>NaN\<close> for \<open>0 / 0\<close> and \<open>Infinity\<close> for \<open>c / 0\<close> with \<open>c > 0\<close>; it never throws.
\<close>

datatype js_number = Num rat | NaN | PosInfinity

definition js_divide :: "nat \<Rightarrow> nat \<Rightarrow> js_number" where
  "js_divide c n =
     (if n = 0 then (if c = 0 then NaN else PosInfinity) else Num (of_nat c / of_nat n))"

section \<open>Practice-quiz grading (Dashboard, \<open>handleQuizSubmit\<close>)\<close>

text \<open>
  A generated question: \<open>text\<close>, \<open>options\<close>, \<open>correct_answer\<close> and \<open>explanation\<close>. The
  correct answer is a string (the component already calls \<open>question.correct_answer.charAt(0)\<close>
  to render each question). An entry of the results array has the fields \<open>question\<close>,
  \<open>selected_option\<close>, \<open>correct_answer\<close>, \<open>is_correct\<close> and \<open>explanation\<close>.
\<close>

record quiz_question =
  q_text :: string
  options :: "string list"
  correct_answer :: string
  explanation :: string

record question_result =
  res_question :: string
  selected_option :: "string option"
  res_correct_answer :: string
  is_correct :: bool
  res_explanation :: string

record grading =
  score :: js_number
  questions :: "question_result list"

text \<open>
  \<open>selectedAnswers\<close> is an object keyed by question index; \<open>selectedAnswers[index]\<close> is
  \<open>undefined\<close> for an index with no entry.
\<close>

type_synonym answers = "nat \<rightharpoonup> string"

text \<open>
  The callback of \<open>generatedContent.data.map((question, index) => ...)\<close>: the result entry
  of one question and the new value of the counter \<open>correctAnswers\<close>, which the callback
  increments when \<open>selectedAnswers[index] === question.correct_answer.charAt(0)\<close>.
\<close>

definition grade_question ::
    "answers \<Rightarrow> quiz_question \<Rightarrow> nat \<Rightarrow> nat \<Rightarrow> question_result \<times> nat" where
  "grade_question selectedAnswers question index correctAnswers =
     (let isCorrect = (selectedAnswers index = Some (charAt0 (correct_answer question)))
      in (\<lparr> res_question = q_text question,
             selected_option = selectedAnswers index,
             res_correct_answer = charAt0 (correct_answer question),
             is_correct = isCorrect,
             res_explanation = explanation question \<rparr>,
          if isCorrect then correctAnswers + 1 else correctAnswers))"

text \<open>The \<open>map\<close> itself, from position \<open>index\<close> on, threading the counter.\<close>

fun grade_from ::
    "answers \<Rightarrow> nat \<Rightarrow> quiz_question list \<Rightarrow> nat \<Rightarrow> question_result list \<times> nat" where
  "grade_from selectedAnswers index [] correctAnswers = ([], correctAnswers)"
| "grade_from selectedAnswers index (question # rest) correctAnswers =
     (case grade_question selectedAnswers question index correctAnswers of
        (r, c) \<Rightarrow>
          (case grade_from selectedAnswers (index + 1) rest c of
             (rs, c') \<Rightarrow> (r # rs, c')))"

text \<open>
  Lines 767 to 783 of the handler: \<open>totalQuestions\<close>, the mapped results and
  \<open>score = correctAnswers / totalQuestions\<close>.
\<close>

definition grade :: "quiz_question list \<Rightarrow> answers \<Rightarrow> grading" where
  "grade data selectedAnswers =
     (let totalQuestions = length data
      in case grade_from selectedAnswers 0 data 0 of
           (results, correctAnswers) \<Rightarrow>
             \<lparr> score = js_divide correctAnswers totalQuestions, questions = results \<rparr>)"

text \<open>
  The Dashboard state that \<open>handleQuizSubmit\<close> reads and writes. \<open>generatedContent\<close> is
  \<open>null\<close> or an object with a \<open>type\<close> and the \<open>data\<close> (the questions, when the type is
  \<open>'questions'\<close>).
\<close>

record generated_content =
  content_type :: string
  data :: "quiz_question list"

record quiz_results =
  attempt_id :: string
  result_score :: js_number
  result_questions :: "question_result list"

record recent_quiz =
  recent_id :: string
  quiz_id :: string
  recent_score :: js_number

record dashboard =
  isSubmittingQuiz :: bool
  generatedContent :: "generated_content option"
  selectedAnswers :: answers
  quizSubmitted :: bool
  quizResults :: "quiz_results option"
  error_message :: string
  recentQuizzes :: "recent_quiz list"

text \<open>
  \<open>handleQuizSubmit\<close>. \<open>post\<close> is the outcome of
  \<open>await api.post('/quizzes/practice/attempt', attemptData)\<close>: the \<open>attempt_id\<close> of the
  response, or the error the call rejected with; \<open>now\<close> is the decimal text of
  \<open>Date.now()\<close>. The \<open>try\<close> block has one \<open>catch\<close>, which sets the error message, and the
  \<open>finally\<close> resets \<open>isSubmittingQuiz\<close>. What the call does to the browser state is
  \<open>api_request\<close> below and is not repeated here.
\<close>

definition handleQuizSubmit :: "('e + string) \<Rightarrow> string \<Rightarrow> dashboard \<Rightarrow> dashboard" where
  "handleQuizSubmit post now d =
     (case generatedContent d of
        None \<Rightarrow> d
      | Some content \<Rightarrow>
          if isSubmittingQuiz d \<or> content_type content \<noteq> ''questions'' then d
          else
            (let g = grade (data content) (selectedAnswers d)
             in case post of
                  Inr aid \<Rightarrow>
                    d \<lparr> quizResults :=
                          Some \<lparr> attempt_id = aid, result_score = score g,
                                 result_questions = questions g \<rparr>,
                        quizSubmitted := True,
                        recentQuizzes :=
                          \<lparr> recent_id = aid, quiz_id = ''practice-'' @ now,
                            recent_score = score g \<rparr> # take 4 (recentQuizzes d),
                        isSubmittingQuiz := False \<rparr>
                | Inl err \<Rightarrow>
                    d \<lparr> error_message := ''Failed to submit quiz. Please try again.'',
                        isSubmittingQuiz := False \<rparr>))"

section \<open>The browser state and the identity provider\<close>

text \<open>
  A thrown value, named by its code or message. The outcome of an awaited call is a
  parameter of the function that awaits it: \<open>Inl\<close> the error the promise rejected with,
  \<open>Inr\<close> the value it resolved to. Every async function is modelled as one run from its
  call to its return.
\<close>

datatype js_error = JsError string

record fb_user =
  uid :: string
  email :: string

datatype provider_call =
    SignIn string string
  | SignUp string string
  | UpdateProfile string
  | GetIdToken bool
  | SignOut

text \<open>
  What the code reads and writes outside React state: the \<open>localStorage\<close> slot
  \<open>'firebaseToken'\<close> (the credential store; \<open>getItem\<close> gives \<open>null\<close> when it is empty),
  \<open>window.location.pathname\<close>, the assignments to \<open>window.location.href\<close>, the messages
  of \<open>console.error\<close> and \<open>console.warn\<close> (by their constant text; \<open>console.log\<close> lines are left out), and
  the calls made to the identity provider, all oldest first. The three operations below
  are the storage calls when they succeed; the request interceptor, whose outer \<open>catch\<close>
  stands around its storage calls, is also told what they throw (\<open>storage_faults\<close>).
\<close>

record world =
  firebaseToken :: "string option"
  pathname :: string
  redirects :: "string list"
  console :: "string list"
  provider_calls :: "provider_call list"

definition getItem :: "world \<Rightarrow> string option" where
  "getItem w = firebaseToken w"

definition setItem :: "string \<Rightarrow> world \<Rightarrow> world" where
  "setItem v w = w \<lparr> firebaseToken := Some v \<rparr>"

definition removeItem :: "world \<Rightarrow> world" where
  "removeItem w = w \<lparr> firebaseToken := None \<rparr>"

definition console_error :: "string \<Rightarrow> world \<Rightarrow> world" where
  "console_error m w = w \<lparr> console := console w @ [m] \<rparr>"

definition console_warn :: "string \<Rightarrow> world \<Rightarrow> world" where
  "console_warn m w = w \<lparr> console := console w @ [m] \<rparr>"

definition assign_href :: "string \<Rightarrow> world \<Rightarrow> world" where
  "assign_href target w = w \<lparr> redirects := redirects w @ [target] \<rparr>"

definition call_provider :: "provider_call \<Rightarrow> world \<Rightarrow> world" where
  "call_provider c w = w \<lparr> provider_calls := provider_calls w @ [c] \<rparr>"

section \<open>firebaseService.js\<close>

text \<open>
  \<open>loginWithEmailPassword\<close>. \<open>signIn\<close> is the outcome of \<open>signInWithEmailAndPassword\<close>
  (the \<open>user\<close> of the credential it resolves to), \<open>tok\<close> that of
  \<open>userCredential.user.getIdToken(true)\<close>. With no user object the member access throws
  inside the inner \<open>try\<close>, which logs and goes on.
\<close>

definition loginWithEmailPassword ::
    "(js_error + fb_user option) \<Rightarrow> (js_error + string) \<Rightarrow> string \<Rightarrow> string \<Rightarrow> world
      \<Rightarrow> (js_error + fb_user option) \<times> world" where
  "loginWithEmailPassword signIn tok em password w =
     (let w1 = call_provider (SignIn em password) w
      in case signIn of
           Inl error \<Rightarrow> (Inl error, console_error ''Firebase login error:'' w1)
         | Inr user \<Rightarrow>
             (case user of
                None \<Rightarrow> (Inr user, console_error ''Error getting token after login:'' w1)
              | Some u \<Rightarrow>
                  (let w2 = call_provider (GetIdToken True) w1
                   in case tok of
                        Inr idToken \<Rightarrow> (Inr user, setItem idToken w2)
                      | Inl tokenError \<Rightarrow>
                          (Inr user, console_error ''Error getting token after login:'' w2))))"

text \<open>
  \<open>registerWithEmailPassword\<close>. \<open>signUp\<close> is the outcome of
  \<open>createUserWithEmailAndPassword\<close>, \<open>upd\<close> the error \<open>updateProfile\<close> throws, if any (it
  is called only for a truthy \<open>displayName\<close>), \<open>tok\<close> the outcome of \<open>getIdToken(true)\<close>.
\<close>

definition registerWithEmailPassword ::
    "(js_error + fb_user option) \<Rightarrow> js_error option \<Rightarrow> (js_error + string)
      \<Rightarrow> string \<Rightarrow> string \<Rightarrow> string option \<Rightarrow> world
      \<Rightarrow> (js_error + fb_user option) \<times> world" where
  "registerWithEmailPassword signUp upd tok em password displayName w =
     (let w1 = call_provider (SignUp em password) w
      in case signUp of
           Inl error \<Rightarrow> (Inl error, console_error ''Firebase registration error:'' w1)
         | Inr user \<Rightarrow>
             (let (thrown, w2) =
                    (case (if js_truthy displayName then displayName else None) of
                       Some name \<Rightarrow> (upd, call_provider (UpdateProfile name) w1)
                     | None \<Rightarrow> (None, w1))
              in case thrown of
                   Some error \<Rightarrow> (Inl error, console_error ''Firebase registration error:'' w2)
                 | None \<Rightarrow>
                     (case user of
                        None \<Rightarrow>
                          (Inr user,
                           console_error ''Error getting token after registration:'' w2)
                      | Some u \<Rightarrow>
                          (let w3 = call_provider (GetIdToken True) w2
                           in case tok of
                                Inr idToken \<Rightarrow> (Inr user, setItem idToken w3)
                              | Inl tokenError \<Rightarrow>
                                  (Inr user,
                                   console_error
                                     ''Error getting token after registration:'' w3)))))"

text \<open>
  \<open>logoutFirebase\<close>. \<open>signOut\<close> is the error \<open>signOut(auth)\<close> throws, if any. The removal
  and \<open>return true\<close> follow the \<open>await\<close> inside the \<open>try\<close>; the \<open>catch\<close> logs and throws the
  error again.
\<close>

definition logoutFirebase :: "js_error option \<Rightarrow> world \<Rightarrow> (js_error + bool) \<times> world" where
  "logoutFirebase signOut w =
     (let w1 = call_provider SignOut w
      in case signOut of
           None \<Rightarrow> (Inr True, removeItem w1)
         | Some error \<Rightarrow> (Inl error, console_error ''Firebase logout error:'' w1))"

section \<open>api.js: the request and response interceptors\<close>

record request_config =
  url :: string
  headers :: "string \<rightharpoonup> string"

record http_response =
  status :: nat
  statusText :: string

text \<open>
  The error a failed call rejects with: \<open>error.code\<close>, \<open>error.response\<close> (present when
  the server answered; axios rejects every answer whose status is not 2xx, so a 401
  arrives here) and \<open>error.message\<close>.
\<close>

record axios_error =
  err_code :: "string option"
  err_response :: "http_response option"
  err_message :: "string option"

definition set_authorization :: "string \<Rightarrow> request_config \<Rightarrow> request_config" where
  "set_authorization token config =
     config \<lparr> headers := (headers config)(''Authorization'' \<mapsto> ''Bearer '' @ trim token) \<rparr>"

text \<open>
  What the two \<open>localStorage\<close> calls of the request interceptor throw, if anything (a
  \<open>SecurityError\<close> when storage access is denied, a \<open>QuotaExceededError\<close> on a write).
\<close>

record storage_faults =
  getItem_throws :: "js_error option"
  setItem_throws :: "js_error option"

definition no_faults :: storage_faults where
  "no_faults = \<lparr> getItem_throws = None, setItem_throws = None \<rparr>"

definition type_error :: js_error where
  "type_error = JsError ''TypeError''"

text \<open>
  A block of statements of the interceptor works on the configuration (whose headers it
  assigns in place) and the browser state; it either completes or throws, and what it
  has written before a throw stays written. \<open>try_catch\<close> is \<open>try { body } catch (e) {
  handler }\<close>.
\<close>

type_synonym request_state = "request_config \<times> world"

type_synonym block = "request_state \<Rightarrow> js_error option \<times> request_state"

definition try_catch :: "block \<Rightarrow> (js_error \<Rightarrow> block) \<Rightarrow> block" where
  "try_catch body handler s =
     (case body s of
        (None, s') \<Rightarrow> (None, s')
      | (Some e, s') \<Rightarrow> handler e s')"

text \<open>\<open>localStorage.getItem('firebaseToken')\<close>: the stored value or \<open>null\<close>, or a throw.\<close>

definition read_cached :: "storage_faults \<Rightarrow> world \<Rightarrow> js_error + string option" where
  "read_cached faults w =
     (case getItem_throws faults of Some e \<Rightarrow> Inl e | None \<Rightarrow> Inr (getItem w))"

text \<open>
  \<open>if (cachedToken) { config.headers['Authorization'] = `Bearer ${cachedToken.trim()}`; }\<close>
\<close>

definition attach_cached :: "string option \<Rightarrow> request_config \<Rightarrow> request_config" where
  "attach_cached cachedToken config =
     (case (if js_truthy cachedToken then cachedToken else None) of
        Some t \<Rightarrow> set_authorization t config
      | None \<Rightarrow> config)"

text \<open>
  The fallback that both branches of the interceptor share (lines 189 to 192 and 196 to
  199): read the cached token, attach it when it is truthy.
\<close>

definition cached_fallback :: "storage_faults \<Rightarrow> block" where
  "cached_fallback faults s =
     (case s of (config, w) \<Rightarrow>
        (case read_cached faults w of
           Inl e \<Rightarrow> (Some e, (config, w))
         | Inr cachedToken \<Rightarrow> (None, (attach_cached cachedToken config, w))))"

text \<open>
  The body of the inner \<open>try\<close> (lines 182 to 184). \<open>tok\<close> is the outcome of
  \<open>currentUser.getIdToken(true)\<close>: the error it rejects with, or the value it resolves
  to, \<open>Some\<close> a string or \<open>None\<close> for a value that is no string, on which \<open>token.trim()\<close>
  throws a \<open>TypeError\<close>. The header is assigned before \<open>localStorage.setItem\<close> runs.
\<close>

definition fresh_token :: "storage_faults \<Rightarrow> (js_error + string option) \<Rightarrow> block" where
  "fresh_token faults tok s =
     (case s of (config, w) \<Rightarrow>
        (let w1 = call_provider (GetIdToken True) w
         in case tok of
              Inl tokenError \<Rightarrow> (Some tokenError, (config, w1))
            | Inr None \<Rightarrow> (Some type_error, (config, w1))
            | Inr (Some token) \<Rightarrow>
                (let config1 = set_authorization token config
                 in case setItem_throws faults of
                      Some e \<Rightarrow> (Some e, (config1, w1))
                    | None \<Rightarrow> (None, (config1, setItem token w1)))))"

text \<open>The inner \<open>catch (tokenError)\<close>: log, then the fallback.\<close>

definition token_catch :: "storage_faults \<Rightarrow> js_error \<Rightarrow> block" where
  "token_catch faults tokenError s =
     (case s of (config, w) \<Rightarrow>
        cached_fallback faults
          (config, console_error ''Error getting fresh Firebase token:'' w))"

text \<open>The body of the outer \<open>try\<close> (lines 177 to 200); \<open>currentUser\<close> is \<open>auth.currentUser\<close>.\<close>

definition attach_token ::
    "storage_faults \<Rightarrow> fb_user option \<Rightarrow> (js_error + string option) \<Rightarrow> block" where
  "attach_token faults currentUser tok =
     (case currentUser of
        Some u \<Rightarrow> try_catch (fresh_token faults tok) (token_catch faults)
      | None \<Rightarrow> cached_fallback faults)"

text \<open>The outer \<open>catch (error)\<close>: a warning, nothing else.\<close>

definition warn_catch :: "js_error \<Rightarrow> block" where
  "warn_catch error s =
     (case s of (config, w) \<Rightarrow>
        (None, (config, console_warn ''Error setting auth token on request:'' w)))"

text \<open>
  The request interceptor: the outer \<open>try\<close> and \<open>catch\<close>, then \<open>return config\<close>. The result
  is \<open>Inr\<close> the configuration the promise resolves to, or \<open>Inl\<close> the error it rejects with
  when something is thrown past the outer \<open>catch\<close>.
\<close>

definition request_interceptor ::
    "storage_faults \<Rightarrow> fb_user option \<Rightarrow> (js_error + string option) \<Rightarrow> request_config
      \<Rightarrow> world \<Rightarrow> (js_error + request_config) \<times> world" where
  "request_interceptor faults currentUser tok config w =
     (case try_catch (attach_token faults currentUser tok) warn_catch (config, w) of
        (None, (config', w')) \<Rightarrow> (Inr config', w')
      | (Some e, (config', w')) \<Rightarrow> (Inl e, w'))"

text \<open>
  The rejection handler of the response interceptor; it ends in
  \<open>Promise.reject(error)\<close>, so the caller gets the same error. The success handler
  returns the response as it is.
\<close>

definition response_rejected :: "axios_error \<Rightarrow> world \<Rightarrow> world" where
  "response_rejected error w =
     (if err_code error = Some ''ECONNABORTED'' then
        console_error ''Request timeout - API server may be down or unreachable'' w
      else
        (case err_response error of
           Some response \<Rightarrow>
             (let w1 = console_error ''API Error:'' w
              in if status response = 401 then
                   (let w2 = removeItem w1
                    in if \<not> includes_str (pathname w2) ''/login''
                       then assign_href ''/login'' w2 else w2)
                 else w1)
         | None \<Rightarrow>
             (case (if js_truthy (err_message error) then err_message error else None) of
                Some message \<Rightarrow>
                  (if includes_str message ''Network Error''
                   then console_error ''CORS or Network Error:'' w
                   else console_error ''API request error:'' w)
              | None \<Rightarrow> w)))"

text \<open>
  A call through the axios instance: the request interceptor, the answer of the backend
  (\<open>backend\<close>: the error axios raises, or the response), the response interceptor. A
  request whose interceptor rejects is not sent.
\<close>

datatype api_error = Rejected js_error | Failed axios_error

definition api_request ::
    "storage_faults \<Rightarrow> fb_user option \<Rightarrow> (js_error + string option)
      \<Rightarrow> (axios_error + http_response) \<Rightarrow> request_config \<Rightarrow> world
      \<Rightarrow> (api_error + http_response) \<times> world" where
  "api_request faults currentUser tok backend config w =
     (case request_interceptor faults currentUser tok config w of
        (Inl e, w1) \<Rightarrow> (Inl (Rejected e), w1)
      | (Inr config', w1) \<Rightarrow>
          (case backend of
             Inr response \<Rightarrow> (Inr response, w1)
           | Inl error \<Rightarrow> (Inl (Failed error), response_rejected error w1)))"

section \<open>AuthContext.jsx: the session controller\<close>

text \<open>
  \<open>login\<close>. \<open>signIn\<close> and \<open>tok1\<close> are the outcomes awaited inside
  \<open>loginWithEmailPassword\<close>, \<open>tok2\<close> that of \<open>user.getIdToken(true)\<close> in \<open>login\<close> itself.
  The inner \<open>catch\<close> logs and throws \<open>tokenError\<close>, the outer one logs and throws again.
\<close>

definition login ::
    "(js_error + fb_user option) \<Rightarrow> (js_error + string) \<Rightarrow> (js_error + string)
      \<Rightarrow> string \<Rightarrow> string \<Rightarrow> world \<Rightarrow> (js_error + bool) \<times> world" where
  "login signIn tok1 tok2 em password w =
     (case loginWithEmailPassword signIn tok1 em password w of
        (Inl error, w1) \<Rightarrow> (Inl error, console_error ''AuthContext: Firebase login error:'' w1)
      | (Inr user, w1) \<Rightarrow>
          (case user of
             Some u \<Rightarrow>
               (let w2 = call_provider (GetIdToken True) w1
                in case tok2 of
                     Inr idToken \<Rightarrow> (Inr True, setItem idToken w2)
                   | Inl tokenError \<Rightarrow>
                       (Inl tokenError,
                        console_error ''AuthContext: Firebase login error:''
                          (console_error ''AuthContext: Error getting Firebase token:'' w2)))
           | None \<Rightarrow> (Inr False, w1)))"

text \<open>
  \<open>register\<close>. Here the token is asked for with \<open>user.getIdToken()\<close>, and the inner
  \<open>catch\<close> only logs, so the function goes on to \<open>return false\<close>.
\<close>

definition register ::
    "(js_error + fb_user option) \<Rightarrow> js_error option \<Rightarrow> (js_error + string)
      \<Rightarrow> (js_error + string) \<Rightarrow> string \<Rightarrow> string \<Rightarrow> string option \<Rightarrow> world
      \<Rightarrow> (js_error + bool) \<times> world" where
  "register signUp upd tok1 tok2 em password displayName w =
     (case registerWithEmailPassword signUp upd tok1 em password displayName w of
        (Inl error, w1) \<Rightarrow> (Inl error, console_error ''AuthContext: Registration error:'' w1)
      | (Inr user, w1) \<Rightarrow>
          (case user of
             Some u \<Rightarrow>
               (let w2 = call_provider (GetIdToken False) w1
                in case tok2 of
                     Inr idToken \<Rightarrow> (Inr True, setItem idToken w2)
                   | Inl tokenError \<Rightarrow>
                       (Inr False,
                        console_error
                          ''AuthContext: Error getting token after registration:'' w2))
           | None \<Rightarrow> (Inr False, w1)))"

text \<open>
  \<open>logout\<close>: the removal and \<open>return true\<close> follow \<open>await logoutFirebase()\<close> inside the
  \<open>try\<close>; the \<open>catch\<close> logs and returns \<open>false\<close>. It never throws.
\<close>

definition logout :: "js_error option \<Rightarrow> world \<Rightarrow> bool \<times> world" where
  "logout signOut w =
     (case logoutFirebase signOut w of
        (Inr ok, w1) \<Rightarrow> (True, removeItem w1)
      | (Inl error, w1) \<Rightarrow> (False, console_error ''AuthContext: Firebase logout error:'' w1))"

text \<open>The React state of \<open>AuthProvider\<close>, and its initial value.\<close>

record auth_state =
  firebaseUser :: "fb_user option"
  loading :: bool

definition initial_auth_state :: auth_state where
  "initial_auth_state = \<lparr> firebaseUser = None, loading = True \<rparr>"

definition users_me :: request_config where
  "users_me = \<lparr> url = ''/users/me'', headers = [''Content-Type'' \<mapsto> ''application/json''] \<rparr>"

text \<open>
  The callback given to \<open>onAuthStateChanged\<close>. \<open>user\<close> is the principal of the
  notification, \<open>tok\<close> the outcome of \<open>user.getIdToken(true)\<close>; \<open>vfaults\<close>, \<open>vuser\<close>,
  \<open>vtok\<close> and \<open>vbackend\<close> are what the verification call \<open>api.get('/users/me')\<close> meets
  (it runs only after the token has been stored).
\<close>

definition onAuthStateChanged_callback ::
    "fb_user option \<Rightarrow> (js_error + string)
      \<Rightarrow> storage_faults \<Rightarrow> fb_user option \<Rightarrow> (js_error + string option)
      \<Rightarrow> (axios_error + http_response)
      \<Rightarrow> world \<times> auth_state \<Rightarrow> world \<times> auth_state" where
  "onAuthStateChanged_callback user tok vfaults vuser vtok vbackend st =
     (case st of (w, s) \<Rightarrow>
        (let s1 = s \<lparr> firebaseUser := user \<rparr>;
             w' =
               (case user of
                  Some u \<Rightarrow>
                    (let w1 = call_provider (GetIdToken True) w
                     in case tok of
                          Inr idToken \<Rightarrow>
                            (case api_request vfaults vuser vtok vbackend users_me
                                    (setItem idToken w1) of
                               (Inr response, w3) \<Rightarrow> w3
                             | (Inl apiError, w3) \<Rightarrow>
                                 console_error ''AuthContext: API verification failed:'' w3)
                        | Inl error \<Rightarrow>
                            console_error ''AuthContext: Error getting fresh token:'' w1)
                | None \<Rightarrow> removeItem w)
         in (w', s1 \<lparr> loading := False \<rparr>)))"

text \<open>The error callback given to \<open>onAuthStateChanged\<close>.\<close>

definition onAuthStateChanged_error :: "world \<times> auth_state \<Rightarrow> world \<times> auth_state" where
  "onAuthStateChanged_error st =
     (case st of (w, s) \<Rightarrow>
        (console_error ''AuthContext: Auth state change error:'' w, s \<lparr> loading := False \<rparr>))"

section \<open>App.jsx: the protected route\<close>

text \<open>
  What a component renders: a \<open>Navigate\<close> to a path, the spinner, the wrapped children,
  or nothing (\<open>{!loading && children}\<close> is \<open>false\<close> while \<open>loading\<close>, which React renders
  as nothing).
\<close>

datatype rendering = Navigate string | Spinner | Children | Nothing

text \<open>\<open>ProtectedRoute\<close>, from the \<open>currentUser\<close> and \<open>isAuthenticated\<close> of \<open>useAuth()\<close>.\<close>

definition ProtectedRoute :: "fb_user option \<Rightarrow> bool \<Rightarrow> rendering" where
  "ProtectedRoute currentUser isAuthenticated =
     (if \<not> isAuthenticated then Navigate ''/login''
      else if currentUser = None then Spinner
      else Children)"

text \<open>
  \<open>AuthProvider\<close> rendering a protected route as its child: the context value is
  \<open>currentUser: firebaseUser\<close>, \<open>isAuthenticated: !!firebaseUser\<close>, and the children are
  rendered only when \<open>loading\<close> is false.
\<close>

definition AuthProvider_protected :: "auth_state \<Rightarrow> rendering" where
  "AuthProvider_protected s =
     (if \<not> loading s then ProtectedRoute (firebaseUser s) (firebaseUser s \<noteq> None)
      else Nothing)"

section \<open>Concrete inputs\<close>

definition sample_user :: fb_user where
  "sample_user = \<lparr> uid = ''u1'', email = ''student@example.org'' \<rparr>"

definition sample_world :: world where
  "sample_world =
     \<lparr> firebaseToken = Some ''cached-token'', pathname = ''/'', redirects = [],
       console = [], provider_calls = [] \<rparr>"

definition quiz_page_world :: world where
  "quiz_page_world =
     \<lparr> firebaseToken = Some ''cached-token'', pathname = ''/quiz/login'', redirects = [],
       console = [], provider_calls = [] \<rparr>"

definition storage_denied :: storage_faults where
  "storage_denied =
     \<lparr> getItem_throws = Some (JsError ''SecurityError''),
       setItem_throws = Some (JsError ''SecurityError'') \<rparr>"

definition network_failure :: js_error where
  "network_failure = JsError ''auth/network-request-failed''"

definition unauthorized :: axios_error where
  "unauthorized =
     \<lparr> err_code = Some ''ERR_BAD_REQUEST'',
       err_response = Some \<lparr> status = 401, statusText = ''Unauthorized'' \<rparr>,
       err_message = Some ''Request failed with status code 401'' \<rparr>"

definition sample_quiz :: "quiz_question list" where
  "sample_quiz =
     [\<lparr> q_text = ''Q1'', options = [''A) a'', ''B) b'', ''C) c''],
        correct_answer = ''A'', explanation = ''E1'' \<rparr>,
      \<lparr> q_text = ''Q2'', options = [''A) a'', ''B) b'', ''C) c''],
        correct_answer = ''B) b'', explanation = ''E2'' \<rparr>,
      \<lparr> q_text = ''Q3'', options = [''A) a'', ''B) b'', ''C) c''],
        correct_answer = ''C'', explanation = ''E3'' \<rparr>]"

definition sample_answers :: answers where
  "sample_answers = [0 \<mapsto> ''A'', 1 \<mapsto> ''A'', 2 \<mapsto> ''C'']"

definition partial_answers :: answers where
  "partial_answers = [0 \<mapsto> ''A'', 2 \<mapsto> ''C'']"

definition no_answers :: answers where
  "no_answers = Map.empty"

definition empty_quiz_dashboard :: dashboard where
  "empty_quiz_dashboard =
     \<lparr> isSubmittingQuiz = False,
       generatedContent = Some \<lparr> content_type = ''questions'', data = [] \<rparr>,
       selectedAnswers = no_answers, quizSubmitted = False, quizResults = None,
       error_message = [], recentQuizzes = [] \<rparr>"

section \<open>Properties of the string operations\<close>

lemma startsWith_iff: "startsWith s sub \<longleftrightarrow> (\<exists>suf. s = sub @ suf)"
proof
  assume "startsWith s sub"
  then have "s = sub @ drop (length sub) s"
    unfolding startsWith_def by (metis append_take_drop_id)
  then show "\<exists>suf. s = sub @ suf" ..
next
  assume "\<exists>suf. s = sub @ suf"
  then show "startsWith s sub" unfolding startsWith_def by auto
qed

lemma includes_str_iff: "includes_str s sub \<longleftrightarrow> (\<exists>pre suf. s = pre @ sub @ suf)"
proof (induction s)
  case Nil
  show ?case by simp
next
  case (Cons c cs)
  show ?case
  proof
    assume "includes_str (c # cs) sub"
    then consider "startsWith (c # cs) sub" | "includes_str cs sub" by auto
    then show "\<exists>pre suf. c # cs = pre @ sub @ suf"
    proof cases
      case 1
      then obtain suf where "c # cs = sub @ suf" using startsWith_iff by blast
      then have "c # cs = [] @ sub @ suf" by simp
      then show ?thesis by blast
    next
      case 2
      with Cons.IH obtain pre suf where "cs = pre @ sub @ suf" by blast
      then have "c # cs = (c # pre) @ sub @ suf" by simp
      then show ?thesis by blast
    qed
  next
    assume "\<exists>pre suf. c # cs = pre @ sub @ suf"
    then obtain pre suf where e: "c # cs = pre @ sub @ suf" by blast
    show "includes_str (c # cs) sub"
    proof (cases pre)
      case Nil
      with e have "startsWith (c # cs) sub" using startsWith_iff by auto
      then show ?thesis by simp
    next
      case (Cons p ps)
      with e have "cs = ps @ sub @ suf" by simp
      with Cons.IH have "includes_str cs sub" by blast
      then show ?thesis by simp
    qed
  qed
qed

lemma trim_decomposition:
  "s = takeWhile js_whitespace s @ trim s
        @ rev (takeWhile js_whitespace (rev (dropWhile js_whitespace s)))"
proof -
  let ?d = "dropWhile js_whitespace s"
  have "rev (dropWhile js_whitespace (rev ?d)) @ rev (takeWhile js_whitespace (rev ?d)) =
      rev (takeWhile js_whitespace (rev ?d) @ dropWhile js_whitespace (rev ?d))"
    by (simp only: rev_append)
  also have "\<dots> = rev (rev ?d)" by (simp only: takeWhile_dropWhile_id)
  also have "\<dots> = ?d" by simp
  finally have "?d = trim s @ rev (takeWhile js_whitespace (rev ?d))"
    by (simp only: trim_def)
  moreover have "s = takeWhile js_whitespace s @ ?d" by simp
  ultimately show ?thesis by simp
qed

lemma trim_surrounding:
  "\<exists>pre suf. s = pre @ trim s @ suf \<and> list_all js_whitespace pre \<and> list_all js_whitespace suf"
proof -
  have "list_all js_whitespace (takeWhile js_whitespace s)"
    by (simp add: list_all_iff) (meson set_takeWhileD)
  moreover have "list_all js_whitespace
      (rev (takeWhile js_whitespace (rev (dropWhile js_whitespace s))))"
    by (simp add: list_all_iff) (meson set_takeWhileD)
  ultimately show ?thesis using trim_decomposition [of s] by blast
qed

lemma trim_last: "trim s \<noteq> [] \<Longrightarrow> \<not> js_whitespace (last (trim s))"
  unfolding trim_def by (simp add: last_rev hd_dropWhile)

lemma trim_hd: "trim s \<noteq> [] \<Longrightarrow> \<not> js_whitespace (hd (trim s))"
proof -
  assume ne: "trim s \<noteq> []"
  let ?d = "dropWhile js_whitespace s"
  have d: "?d = trim s @ rev (takeWhile js_whitespace (rev ?d))"
    using trim_decomposition [of s]
    by (metis append_eq_conv_conj length_append takeWhile_dropWhile_id same_append_eq)
  with ne have "?d \<noteq> []" by (metis append_is_Nil_conv)
  then have "\<not> js_whitespace (hd ?d)" by (rule hd_dropWhile)
  moreover from d ne have "hd ?d = hd (trim s)" by (metis hd_append2)
  ultimately show ?thesis by simp
qed

section \<open>The grading engine\<close>

lemma grade_from_Cons:
  "grade_from a i (q # qs) c =
     (fst (grade_question a q i c) # fst (grade_from a (Suc i) qs (snd (grade_question a q i c))),
      snd (grade_from a (Suc i) qs (snd (grade_question a q i c))))"
  by (simp split: prod.splits)

lemma grade_question_fst:
  "fst (grade_question a q i c) =
     \<lparr> res_question = q_text q, selected_option = a i,
       res_correct_answer = charAt0 (correct_answer q),
       is_correct = (a i = Some (charAt0 (correct_answer q))),
       res_explanation = explanation q \<rparr>"
  by (simp add: grade_question_def Let_def)

lemma grade_question_snd:
  "snd (grade_question a q i c) = c + (if is_correct (fst (grade_question a q i c)) then 1 else 0)"
  by (simp add: grade_question_def Let_def)

lemma grade_from_length:
  "length (fst (grade_from a i qs c)) = length qs"
proof (induction qs arbitrary: i c)
  case Nil
  show ?case by simp
next
  case (Cons q qs)
  show ?case by (simp only: grade_from_Cons fst_conv list.size Cons.IH)
qed

lemma grade_from_count:
  "snd (grade_from a i qs c) = c + length (filter is_correct (fst (grade_from a i qs c)))"
proof (induction qs arbitrary: i c)
  case Nil
  show ?case by simp
next
  case (Cons q qs)
  show ?case
    unfolding grade_from_Cons fst_conv snd_conv
    by (subst Cons.IH) (simp add: grade_question_snd)
qed

lemma grade_from_nth:
  "k < length qs \<Longrightarrow>
   fst (grade_from a i qs c) ! k = fst (grade_question a (qs ! k) (i + k) 0)"
proof (induction qs arbitrary: i c k)
  case Nil
  then show ?case by simp
next
  case (Cons q qs)
  show ?case
  proof (cases k)
    case 0
    then show ?thesis
      unfolding grade_from_Cons fst_conv by (simp add: grade_question_fst)
  next
    case (Suc j)
    with Cons.prems have "j < length qs" by simp
    from Cons.IH [OF this] Suc show ?thesis
      unfolding grade_from_Cons fst_conv by simp
  qed
qed

lemma grade_questions: "questions (grade qs a) = fst (grade_from a 0 qs 0)"
  by (simp add: grade_def Let_def split: prod.splits)

lemma grade_score:
  "score (grade qs a) = js_divide (snd (grade_from a 0 qs 0)) (length qs)"
  by (simp add: grade_def Let_def split: prod.splits)

lemma grade_length: "length (questions (grade qs a)) = length qs"
  by (simp only: grade_questions grade_from_length)

lemma grade_nth:
  assumes "i < length qs"
  shows "questions (grade qs a) ! i =
     \<lparr> res_question = q_text (qs ! i), selected_option = a i,
       res_correct_answer = charAt0 (correct_answer (qs ! i)),
       is_correct = (a i = Some (charAt0 (correct_answer (qs ! i)))),
       res_explanation = explanation (qs ! i) \<rparr>"
  using grade_from_nth [OF assms, of a 0 0]
  by (simp add: grade_questions grade_question_fst)

lemma grade_correct_count:
  "snd (grade_from a 0 qs 0) =
     card {i. i < length qs \<and> a i = Some (charAt0 (correct_answer (qs ! i)))}"
proof -
  let ?rs = "questions (grade qs a)"
  have "snd (grade_from a 0 qs 0) = length (filter is_correct ?rs)"
    using grade_from_count [of a 0 qs 0] by (simp add: grade_questions)
  also have "\<dots> = card {i. i < length ?rs \<and> is_correct (?rs ! i)}"
    by (rule length_filter_conv_card)
  also have "{i. i < length ?rs \<and> is_correct (?rs ! i)} =
      {i. i < length qs \<and> a i = Some (charAt0 (correct_answer (qs ! i)))}"
    by (auto simp: grade_length grade_nth)
  finally show ?thesis .
qed

lemma correct_count_le:
  "card {i. i < length qs \<and> a i = Some (charAt0 (correct_answer (qs ! i)))} \<le> length qs"
proof -
  have "{i. i < length qs \<and> a i = Some (charAt0 (correct_answer (qs ! i)))}
      \<subseteq> {..<length qs}" by auto
  then have "card {i. i < length qs \<and> a i = Some (charAt0 (correct_answer (qs ! i)))}
      \<le> card {..<length qs}"
    by (intro card_mono) simp_all
  then show ?thesis by simp
qed

text \<open>
  Claim C7. For a question set of length \<open>N \<ge> 1\<close> and any answer record, the score is the
  number of correctly answered positions (those whose selection equals the first character
  of the correct answer) divided by \<open>N\<close>, it lies between 0 and 1, and the results array
  has exactly \<open>N\<close> entries.
\<close>

theorem grade_score_fraction:
  assumes "qs \<noteq> []"
  shows "score (grade qs a) =
           Num (of_nat (card {i. i < length qs \<and>
                                 a i = Some (charAt0 (correct_answer (qs ! i)))})
                / of_nat (length qs))
       \<and> (0::rat) \<le> of_nat (card {i. i < length qs \<and>
                                 a i = Some (charAt0 (correct_answer (qs ! i)))})
                / of_nat (length qs)
       \<and> of_nat (card {i. i < length qs \<and>
                                 a i = Some (charAt0 (correct_answer (qs ! i)))})
                / of_nat (length qs) \<le> (1::rat)
       \<and> length (questions (grade qs a)) = length qs"
proof -
  let ?c = "card {i. i < length qs \<and> a i = Some (charAt0 (correct_answer (qs ! i)))}"
  from assms have n: "0 < length qs" by simp
  have "score (grade qs a) = js_divide ?c (length qs)"
    by (simp only: grade_score grade_correct_count)
  with n have s: "score (grade qs a) = Num (of_nat ?c / of_nat (length qs))"
    by (simp add: js_divide_def)
  have lo: "(0::rat) \<le> of_nat ?c / of_nat (length qs)" by simp
  have "?c \<le> length qs" by (rule correct_count_le)
  then have "(of_nat ?c :: rat) \<le> of_nat (length qs)" by (simp only: of_nat_le_iff)
  with n have hi: "of_nat ?c / of_nat (length qs) \<le> (1::rat)"
    by (simp add: divide_le_eq_1)
  from s lo hi grade_length [of qs a] show ?thesis by blast
qed

text \<open>The scenario of three questions with answers A, A, C.\<close>

theorem grade_score_fraction_witness:
  "sample_quiz \<noteq> []
   \<and> score (grade sample_quiz sample_answers) = Num (2 / 3)
   \<and> length (questions (grade sample_quiz sample_answers)) = 3"
proof -
  have ne: "sample_quiz \<noteq> []" by (simp add: sample_quiz_def)
  have set_eq: "{i. i < 3 \<and>
        sample_answers i = Some (charAt0 (correct_answer (sample_quiz ! i)))} = {0, 2}"
    by (auto simp: sample_quiz_def sample_answers_def charAt0_def less_Suc_eq nth_Cons'
        split: if_splits)
  have len: "length sample_quiz = 3" by (simp add: sample_quiz_def)
  from grade_score_fraction [OF ne, of sample_answers] ne show ?thesis
    by (simp add: set_eq len)
qed

lemma grade_scenario:
  "score (grade sample_quiz sample_answers) = Num (2 / 3)
   \<and> map is_correct (questions (grade sample_quiz sample_answers)) = [True, False, True]"
  by (simp add: grade_def sample_quiz_def sample_answers_def grade_question_def charAt0_def
      js_divide_def Let_def)

text \<open>
  Claim C8. A position with no entry in the answer record gets a result entry of its own
  (the array keeps its length, nothing is skipped) that is marked incorrect, with no
  selected option. \<open>grade\<close> is a total function: it returns for every input.
\<close>

theorem unanswered_is_incorrect:
  assumes "i < length qs" and "a i = None"
  shows "length (questions (grade qs a)) = length qs
       \<and> \<not> is_correct (questions (grade qs a) ! i)
       \<and> selected_option (questions (grade qs a) ! i) = None"
  using assms by (simp add: grade_length grade_nth)

theorem unanswered_is_incorrect_witness:
  "(1::nat) < length sample_quiz \<and> partial_answers 1 = None
   \<and> length (questions (grade sample_quiz partial_answers)) = length sample_quiz
   \<and> \<not> is_correct (questions (grade sample_quiz partial_answers) ! 1)
   \<and> selected_option (questions (grade sample_quiz partial_answers) ! 1) = None"
proof -
  have h1: "(1::nat) < length sample_quiz" by (simp add: sample_quiz_def)
  have h2: "partial_answers 1 = None" by (simp add: partial_answers_def)
  from unanswered_is_incorrect [where i = 1 and qs = sample_quiz and a = partial_answers, OF h1 h2]
    h1 h2
  show ?thesis by blast
qed

text \<open>
  The empty question set, graded and submitted: the score is \<open>NaN\<close>, the handler stores it
  as the quiz result and sets no error message.
\<close>

theorem grade_empty_counterexample:
  "grade [] no_answers = \<lparr> score = NaN, questions = [] \<rparr>
   \<and> error_message (handleQuizSubmit (Inr ''attempt-1'' :: js_error + string) ''17''
        empty_quiz_dashboard) = []
   \<and> quizResults (handleQuizSubmit (Inr ''attempt-1'' :: js_error + string) ''17''
        empty_quiz_dashboard)
      = Some \<lparr> attempt_id = ''attempt-1'', result_score = NaN, result_questions = [] \<rparr>"
  by (simp add: grade_def js_divide_def handleQuizSubmit_def empty_quiz_dashboard_def Let_def)

text \<open>
  Claim C9, as amended. On the empty question set the grading raises no error: it returns
  the empty results array with the score \<open>NaN\<close> (\<open>0 / 0\<close>), which is no number in \<open>[0,1]\<close>;
  when the attempt is then saved, \<open>handleQuizSubmit\<close> records that result, marks the quiz
  submitted and leaves the error message as it was.
\<close>

theorem grade_empty_is_NaN:
  "grade [] a = \<lparr> score = NaN, questions = [] \<rparr>
   \<and> (generatedContent d = Some \<lparr> content_type = ''questions'', data = [] \<rparr>
        \<and> \<not> isSubmittingQuiz d \<longrightarrow>
      error_message (handleQuizSubmit (Inr aid) now d) = error_message d
      \<and> quizSubmitted (handleQuizSubmit (Inr aid) now d)
      \<and> quizResults (handleQuizSubmit (Inr aid) now d)
          = Some \<lparr> attempt_id = aid, result_score = NaN, result_questions = [] \<rparr>)"
  by (simp add: grade_def js_divide_def handleQuizSubmit_def Let_def)

theorem grade_empty_is_NaN_witness:
  "generatedContent empty_quiz_dashboard = Some \<lparr> content_type = ''questions'', data = [] \<rparr>
   \<and> \<not> isSubmittingQuiz empty_quiz_dashboard
   \<and> grade [] no_answers = \<lparr> score = NaN, questions = [] \<rparr>
   \<and> quizSubmitted (handleQuizSubmit (Inr ''attempt-1'' :: js_error + string) ''17''
        empty_quiz_dashboard)
   \<and> quizResults (handleQuizSubmit (Inr ''attempt-1'' :: js_error + string) ''17''
        empty_quiz_dashboard)
      = Some \<lparr> attempt_id = ''attempt-1'', result_score = NaN, result_questions = [] \<rparr>"
proof -
  have h1: "generatedContent empty_quiz_dashboard
      = Some \<lparr> content_type = ''questions'', data = [] \<rparr>"
    by (simp add: empty_quiz_dashboard_def)
  have h2: "\<not> isSubmittingQuiz empty_quiz_dashboard"
    by (simp add: empty_quiz_dashboard_def)
  from grade_empty_is_NaN
    [of no_answers empty_quiz_dashboard "''attempt-1''" "''17''", where ?'b = js_error] h1 h2
  show ?thesis by blast
qed

section \<open>The browser state under the basic operations\<close>

lemma firebaseToken_simps:
  "firebaseToken (removeItem w) = None"
  "firebaseToken (setItem v w) = Some v"
  "firebaseToken (console_error m w) = firebaseToken w"
  "firebaseToken (console_warn m w) = firebaseToken w"
  "firebaseToken (call_provider c w) = firebaseToken w"
  "firebaseToken (assign_href t w) = firebaseToken w"
  by (simp_all add: removeItem_def setItem_def console_error_def console_warn_def
      call_provider_def assign_href_def)

lemma redirects_simps:
  "redirects (removeItem w) = redirects w"
  "redirects (setItem v w) = redirects w"
  "redirects (console_error m w) = redirects w"
  "redirects (console_warn m w) = redirects w"
  "redirects (call_provider c w) = redirects w"
  "redirects (assign_href t w) = redirects w @ [t]"
  by (simp_all add: removeItem_def setItem_def console_error_def console_warn_def
      call_provider_def assign_href_def)

lemma pathname_simps:
  "pathname (removeItem w) = pathname w"
  "pathname (setItem v w) = pathname w"
  "pathname (console_error m w) = pathname w"
  "pathname (console_warn m w) = pathname w"
  "pathname (call_provider c w) = pathname w"
  "pathname (assign_href t w) = pathname w"
  by (simp_all add: removeItem_def setItem_def console_error_def console_warn_def
      call_provider_def assign_href_def)

lemma console_simps:
  "console (removeItem w) = console w"
  "console (setItem v w) = console w"
  "console (console_error m w) = console w @ [m]"
  "console (console_warn m w) = console w @ [m]"
  "console (call_provider c w) = console w"
  "console (assign_href t w) = console w"
  by (simp_all add: removeItem_def setItem_def console_error_def console_warn_def
      call_provider_def assign_href_def)

section \<open>Logout\<close>

lemma logoutFirebase_ok:
  "logoutFirebase None w = (Inr True, removeItem (call_provider SignOut w))"
  by (simp add: logoutFirebase_def Let_def)

lemma logoutFirebase_throws:
  "logoutFirebase (Some e) w =
     (Inl e, console_error ''Firebase logout error:'' (call_provider SignOut w))"
  by (simp add: logoutFirebase_def Let_def)

text \<open>
  Claim C1, as amended. When the remote sign-out succeeds, \<open>logout\<close> returns \<open>true\<close> and
  the credential store is empty; when the sign-out throws, \<open>logoutFirebase\<close> throws again
  before its removal, the \<open>catch\<close> of \<open>logout\<close> returns \<open>false\<close>, and the store holds what
  it held before the call.
\<close>

theorem logout_clears_when_signOut_succeeds:
  "(signOut = None \<longrightarrow>
      fst (logout signOut w) \<and> firebaseToken (snd (logout signOut w)) = None)
   \<and> (signOut \<noteq> None \<longrightarrow>
      \<not> fst (logout signOut w) \<and> firebaseToken (snd (logout signOut w)) = firebaseToken w)"
  by (cases signOut)
    (simp_all add: logout_def logoutFirebase_ok logoutFirebase_throws firebaseToken_simps)

theorem logout_clears_when_signOut_succeeds_witness:
  "fst (logout None sample_world)
   \<and> firebaseToken (snd (logout None sample_world)) = None
   \<and> Some network_failure \<noteq> None
   \<and> \<not> fst (logout (Some network_failure) sample_world)
   \<and> firebaseToken (snd (logout (Some network_failure) sample_world))
       = firebaseToken sample_world"
  using logout_clears_when_signOut_succeeds [of None sample_world]
    logout_clears_when_signOut_succeeds [of "Some network_failure" sample_world]
  by simp

text \<open>
  A sign-out that fails on the network, with a token in the store: the token is still
  there when \<open>logout\<close> has returned.
\<close>

theorem logout_keeps_token_counterexample:
  "\<not> fst (logout (Some network_failure) sample_world)
   \<and> firebaseToken (snd (logout (Some network_failure) sample_world)) = Some ''cached-token''"
  by (simp add: logout_def logoutFirebase_throws firebaseToken_simps sample_world_def)

section \<open>The response interceptor\<close>

text \<open>
  What the rejection handler does to the store and the location, case by case.
\<close>

lemma response_rejected_effect:
  "(err_code error \<noteq> Some ''ECONNABORTED''
      \<and> (\<exists>r. err_response error = Some r \<and> status r = 401) \<longrightarrow>
        firebaseToken (response_rejected error w) = None
        \<and> redirects (response_rejected error w)
            = (if includes_str (pathname w) ''/login'' then redirects w
               else redirects w @ [''/login'']))
   \<and> (\<not> (err_code error \<noteq> Some ''ECONNABORTED''
          \<and> (\<exists>r. err_response error = Some r \<and> status r = 401)) \<longrightarrow>
        firebaseToken (response_rejected error w) = firebaseToken w
        \<and> redirects (response_rejected error w) = redirects w)"
  by (auto simp: response_rejected_def Let_def firebaseToken_simps redirects_simps
      pathname_simps split: option.splits)

text \<open>
  Claim C2, evaluated. A 401 arrives while the pathname is \<open>/quiz/login\<close> (the route
  \<open>/quiz/:quizId\<close>), which is not the login page \<open>/login\<close>. The handler empties the
  credential store but assigns no new location, because the pathname contains
  \<open>'/login'\<close>; the comment above the test reads "Only redirect to login if not already on
  login page". On the dashboard path \<open>/\<close> the same response does redirect.
\<close>

theorem response_401_no_redirect_on_quiz_login:
  "pathname quiz_page_world \<noteq> ''/login''
   \<and> err_response unauthorized = Some \<lparr> status = 401, statusText = ''Unauthorized'' \<rparr>
   \<and> firebaseToken (response_rejected unauthorized quiz_page_world) = None
   \<and> redirects (response_rejected unauthorized quiz_page_world) = []
   \<and> redirects (response_rejected unauthorized sample_world) = [''/login'']"
  by (simp add: response_rejected_def unauthorized_def quiz_page_world_def sample_world_def
      Let_def firebaseToken_simps redirects_simps pathname_simps startsWith_def
      removeItem_def console_error_def)

section \<open>The request interceptor\<close>

lemma set_authorization_twice:
  "set_authorization t' (set_authorization t config) = set_authorization t' config"
  by (simp add: set_authorization_def)

lemma read_cached_store:
  "firebaseToken w' = firebaseToken w \<Longrightarrow> read_cached faults w' = read_cached faults w"
  by (simp add: read_cached_def getItem_def split: option.splits)

lemma attach_cached_cases:
  "attach_cached cachedToken config =
     (case cachedToken of
        None \<Rightarrow> config
      | Some v \<Rightarrow> if v = [] then config else set_authorization v config)"
  by (simp add: attach_cached_def js_truthy_def split: option.splits)

lemma attach_cached_shape:
  "attach_cached cachedToken c = c \<or> (\<exists>t. attach_cached cachedToken c = set_authorization t c)"
  by (auto simp: attach_cached_cases split: option.splits)

text \<open>Whatever is thrown inside the outer \<open>try\<close>, nothing is thrown past its \<open>catch\<close>.\<close>

lemma try_catch_warn_catch: "fst (try_catch body warn_catch s) = None"
  by (simp add: try_catch_def warn_catch_def split: prod.splits option.splits)

lemma try_catch_warn_catch_config:
  "fst (snd (try_catch body warn_catch s)) = fst (snd (body s))"
  by (simp add: try_catch_def warn_catch_def split: prod.splits option.splits)

lemma request_interceptor_result:
  "request_interceptor faults currentUser tok config w =
     (Inr (fst (snd (attach_token faults currentUser tok (config, w)))),
      snd (snd (try_catch (attach_token faults currentUser tok) warn_catch (config, w))))"
proof -
  let ?r = "try_catch (attach_token faults currentUser tok) warn_catch (config, w)"
  obtain thrown c' w' where r: "?r = (thrown, (c', w'))" by (metis prod.collapse)
  with try_catch_warn_catch [of "attach_token faults currentUser tok" "(config, w)"]
  have t: "thrown = None" by simp
  from r try_catch_warn_catch_config [of "attach_token faults currentUser tok" "(config, w)"]
  have c: "c' = fst (snd (attach_token faults currentUser tok (config, w)))" by simp
  from r t c show ?thesis by (simp add: request_interceptor_def)
qed

text \<open>The configuration a block leaves behind, completed or not.\<close>

lemma cached_fallback_shape:
  "fst (snd (cached_fallback faults (c, w))) = c
   \<or> (\<exists>t. fst (snd (cached_fallback faults (c, w))) = set_authorization t c)"
  using attach_cached_shape
  by (cases "read_cached faults w") (auto simp: cached_fallback_def)

lemma fresh_token_shape:
  "fst (snd (fresh_token faults tok (c, w))) = c
   \<or> (\<exists>t. fst (snd (fresh_token faults tok (c, w))) = set_authorization t c)"
  by (auto simp: fresh_token_def Let_def split: sum.splits option.splits)

lemma token_catch_shape:
  "fst (snd (token_catch faults e (c, w))) = c
   \<or> (\<exists>t. fst (snd (token_catch faults e (c, w))) = set_authorization t c)"
  using cached_fallback_shape [of faults c "console_error ''Error getting fresh Firebase token:'' w"]
  by (simp add: token_catch_def)

lemma attach_token_shape:
  "fst (snd (attach_token faults currentUser tok (c, w))) = c
   \<or> (\<exists>t. fst (snd (attach_token faults currentUser tok (c, w))) = set_authorization t c)"
proof (cases currentUser)
  case None
  then show ?thesis using cached_fallback_shape [of faults c w] by (simp add: attach_token_def)
next
  case (Some u)
  obtain thrown c1 w1 where f: "fresh_token faults tok (c, w) = (thrown, (c1, w1))"
    by (metis prod.collapse)
  with fresh_token_shape [of faults tok c w]
  have c1: "c1 = c \<or> (\<exists>t. c1 = set_authorization t c)" by simp
  show ?thesis
  proof (cases thrown)
    case None
    with Some f c1 show ?thesis by (simp add: attach_token_def try_catch_def)
  next
    case (Some e)
    with \<open>currentUser = Some u\<close> f
    have a: "attach_token faults currentUser tok (c, w) = token_catch faults e (c1, w1)"
      by (simp add: attach_token_def try_catch_def)
    from token_catch_shape [of faults e c1 w1]
    have "fst (snd (token_catch faults e (c1, w1))) = c1
        \<or> (\<exists>t. fst (snd (token_catch faults e (c1, w1))) = set_authorization t c1)" .
    with c1 a show ?thesis by (auto simp: set_authorization_twice)
  qed
qed

text \<open>The fallback path: no principal, or a mint that gives no token string.\<close>

lemma attach_token_fallback:
  assumes "currentUser = None \<or> \<not> (\<exists>t. tok = Inr (Some t))"
  shows "\<exists>w'. firebaseToken w' = firebaseToken w
           \<and> attach_token faults currentUser tok (config, w) = cached_fallback faults (config, w')"
proof (cases currentUser)
  case None
  then show ?thesis by (auto simp: attach_token_def)
next
  case (Some u)
  with assms have n: "\<not> (\<exists>t. tok = Inr (Some t))" by simp
  let ?w1 = "call_provider (GetIdToken True) w"
  let ?w2 = "console_error ''Error getting fresh Firebase token:'' ?w1"
  from n obtain e where "fresh_token faults tok (config, w) = (Some e, (config, ?w1))"
    by (cases tok) (auto simp: fresh_token_def Let_def split: option.splits)
  with Some have "attach_token faults currentUser tok (config, w)
      = cached_fallback faults (config, ?w2)"
    by (simp add: attach_token_def try_catch_def token_catch_def)
  moreover have "firebaseToken ?w2 = firebaseToken w" by (simp add: firebaseToken_simps)
  ultimately show ?thesis by blast
qed

lemma cached_fallback_store:
  "firebaseToken (snd (snd (cached_fallback faults (c, w)))) = firebaseToken w"
  by (cases "read_cached faults w") (simp_all add: cached_fallback_def)

lemma cached_fallback_config:
  "fst (snd (cached_fallback faults (c, w)))
     = (case read_cached faults w of Inl e \<Rightarrow> c | Inr cachedToken \<Rightarrow> attach_cached cachedToken c)"
  by (cases "read_cached faults w") (simp_all add: cached_fallback_def)

lemma try_catch_warn_catch_store:
  "firebaseToken (snd (snd (try_catch body warn_catch s)))
     = firebaseToken (snd (snd (body s)))"
  by (simp add: try_catch_def warn_catch_def firebaseToken_simps
      split: prod.splits option.splits)

lemma request_interceptor_fallback:
  assumes "currentUser = None \<or> \<not> (\<exists>t. tok = Inr (Some t))"
  shows "fst (request_interceptor faults currentUser tok config w)
           = Inr (case read_cached faults w of
                    Inl e \<Rightarrow> config
                  | Inr cachedToken \<Rightarrow> attach_cached cachedToken config)"
    and "firebaseToken (snd (request_interceptor faults currentUser tok config w))
           = firebaseToken w"
proof -
  from attach_token_fallback [OF assms, of w faults config]
  obtain w' where w': "firebaseToken w' = firebaseToken w"
    and a: "attach_token faults currentUser tok (config, w) = cached_fallback faults (config, w')"
    by blast
  from w' have r: "read_cached faults w' = read_cached faults w" by (rule read_cached_store)
  show "fst (request_interceptor faults currentUser tok config w)
           = Inr (case read_cached faults w of
                    Inl e \<Rightarrow> config
                  | Inr cachedToken \<Rightarrow> attach_cached cachedToken config)"
    by (simp add: request_interceptor_result a cached_fallback_config r)
  show "firebaseToken (snd (request_interceptor faults currentUser tok config w))
           = firebaseToken w"
    by (simp add: request_interceptor_result try_catch_warn_catch_store a
        cached_fallback_store w')
qed

text \<open>
  Claim C3. Let no principal be known, or the mint give no token. The credential store
  is only ever written with the result of a mint, so it does not hold the empty string.
  If the store yields a value, the interceptor resolves to the configuration with
  \<open>Authorization: Bearer\<close> followed by that value trimmed; if it yields none (it is empty,
  or the read throws), the interceptor resolves to the configuration as it came in, with
  no header added. The store is not written on this path. \<open>trim\<close> removes exactly a run
  of white space at each end: what is left neither begins nor ends with white space.
\<close>

theorem request_falls_back_to_cached_token:
  assumes "currentUser = None \<or> \<not> (\<exists>t. tok = Inr (Some t))"
    and "firebaseToken w \<noteq> Some []"
  shows "(\<forall>v. read_cached faults w = Inr (Some v) \<longrightarrow>
            fst (request_interceptor faults currentUser tok config w)
              = Inr (config \<lparr> headers :=
                       (headers config)(''Authorization'' \<mapsto> ''Bearer '' @ trim v) \<rparr>))
       \<and> (read_cached faults w = Inr None \<or> (\<exists>e. read_cached faults w = Inl e) \<longrightarrow>
            fst (request_interceptor faults currentUser tok config w) = Inr config)
       \<and> firebaseToken (snd (request_interceptor faults currentUser tok config w))
            = firebaseToken w
       \<and> (\<exists>pre suf. s = pre @ trim s @ suf
             \<and> list_all js_whitespace pre \<and> list_all js_whitespace suf)
       \<and> (trim s \<noteq> [] \<longrightarrow>
             \<not> js_whitespace (hd (trim s)) \<and> \<not> js_whitespace (last (trim s)))"
proof (intro conjI)
  note r = request_interceptor_fallback(1) [OF assms(1), of faults config w]
  show "\<forall>v. read_cached faults w = Inr (Some v) \<longrightarrow>
            fst (request_interceptor faults currentUser tok config w)
              = Inr (config \<lparr> headers :=
                       (headers config)(''Authorization'' \<mapsto> ''Bearer '' @ trim v) \<rparr>)"
  proof (intro allI impI)
    fix v
    assume v: "read_cached faults w = Inr (Some v)"
    then have "firebaseToken w = Some v"
      by (simp add: read_cached_def getItem_def split: option.splits)
    with assms(2) have "v \<noteq> []" by auto
    with r v show "fst (request_interceptor faults currentUser tok config w)
              = Inr (config \<lparr> headers :=
                       (headers config)(''Authorization'' \<mapsto> ''Bearer '' @ trim v) \<rparr>)"
      by (simp add: attach_cached_cases set_authorization_def)
  qed
  show "read_cached faults w = Inr None \<or> (\<exists>e. read_cached faults w = Inl e) \<longrightarrow>
            fst (request_interceptor faults currentUser tok config w) = Inr config"
    using r by (auto simp: attach_cached_cases)
  show "firebaseToken (snd (request_interceptor faults currentUser tok config w))
            = firebaseToken w"
    by (rule request_interceptor_fallback(2) [OF assms(1)])
  show "\<exists>pre suf. s = pre @ trim s @ suf
      \<and> list_all js_whitespace pre \<and> list_all js_whitespace suf"
    by (rule trim_surrounding)
  show "trim s \<noteq> [] \<longrightarrow>
      \<not> js_whitespace (hd (trim s)) \<and> \<not> js_whitespace (last (trim s))"
    using trim_hd [of s] trim_last [of s] by blast
qed

theorem request_falls_back_to_cached_token_witness:
  "(Some sample_user = None
      \<or> \<not> (\<exists>t. (Inl network_failure :: js_error + string option) = Inr (Some t)))
   \<and> firebaseToken sample_world \<noteq> Some []
   \<and> read_cached no_faults sample_world = Inr (Some ''cached-token'')
   \<and> fst (request_interceptor no_faults (Some sample_user) (Inl network_failure) users_me
        sample_world)
      = Inr (users_me \<lparr> headers :=
               (headers users_me)(''Authorization'' \<mapsto> ''Bearer cached-token'') \<rparr>)
   \<and> firebaseToken (snd (request_interceptor no_faults (Some sample_user)
        (Inl network_failure) users_me sample_world)) = Some ''cached-token''"
proof -
  have h1: "Some sample_user = None
      \<or> \<not> (\<exists>t. (Inl network_failure :: js_error + string option) = Inr (Some t))"
    by simp
  have h2: "firebaseToken sample_world \<noteq> Some []" by (simp add: sample_world_def)
  have h3: "read_cached no_faults sample_world = Inr (Some ''cached-token'')"
    by (simp add: read_cached_def no_faults_def getItem_def sample_world_def)
  have h4: "firebaseToken sample_world = Some ''cached-token''" by (simp add: sample_world_def)
  have t: "trim ''cached-token'' = ''cached-token''"
    by (simp add: trim_def js_whitespace_def)
  from request_falls_back_to_cached_token [OF h1 h2, of no_faults users_me] h1 h2 h3 h4 t
  show ?thesis by simp
qed

text \<open>
  Claim C10. Whatever the mint does (a token, a value that is no string, a thrown
  error), whatever the storage calls throw and whatever the store holds, the request
  interceptor resolves to a request configuration and never rejects: every exception is
  caught by the inner or the outer \<open>catch\<close>. The configuration has the \<open>url\<close> it came with
  and the same headers except possibly \<open>Authorization\<close>, set to a trimmed bearer token;
  and the request is sent: the call ends with the answer of the backend.
\<close>

theorem request_interceptor_never_rejects:
  "(\<exists>config' w'. request_interceptor faults currentUser tok config w = (Inr config', w')
      \<and> url config' = url config
      \<and> (headers config' = headers config
          \<or> (\<exists>t. headers config'
                   = (headers config)(''Authorization'' \<mapsto> ''Bearer '' @ trim t))))
   \<and> fst (api_request faults currentUser tok backend config w)
       = (case backend of Inl error \<Rightarrow> Inl (Failed error) | Inr response \<Rightarrow> Inr response)"
proof (intro conjI)
  let ?c = "fst (snd (attach_token faults currentUser tok (config, w)))"
  let ?w = "snd (snd (try_catch (attach_token faults currentUser tok) warn_catch (config, w)))"
  have r: "request_interceptor faults currentUser tok config w = (Inr ?c, ?w)"
    by (rule request_interceptor_result)
  from attach_token_shape [of faults currentUser tok config w]
  have "url ?c = url config
      \<and> (headers ?c = headers config
          \<or> (\<exists>t. headers ?c = (headers config)(''Authorization'' \<mapsto> ''Bearer '' @ trim t)))"
    by (auto simp: set_authorization_def)
  with r show "\<exists>config' w'. request_interceptor faults currentUser tok config w = (Inr config', w')
      \<and> url config' = url config
      \<and> (headers config' = headers config
          \<or> (\<exists>t. headers config'
                   = (headers config)(''Authorization'' \<mapsto> ''Bearer '' @ trim t)))"
    by blast
  from r show "fst (api_request faults currentUser tok backend config w)
       = (case backend of Inl error \<Rightarrow> Inl (Failed error) | Inr response \<Rightarrow> Inr response)"
    by (simp add: api_request_def split: sum.splits)
qed

text \<open>
  Storage access is denied and the mint fails on the network: both throws are caught,
  and the request goes out as it came in.
\<close>

theorem request_interceptor_never_rejects_witness:
  "fst (request_interceptor storage_denied (Some sample_user) (Inl network_failure) users_me
        sample_world) = Inr users_me
   \<and> console (snd (request_interceptor storage_denied (Some sample_user)
        (Inl network_failure) users_me sample_world))
      = [''Error getting fresh Firebase token:'', ''Error setting auth token on request:'']
   \<and> fst (api_request storage_denied (Some sample_user) (Inl network_failure)
        (Inl unauthorized) users_me sample_world) = Inl (Failed unauthorized)"
proof -
  have "request_interceptor storage_denied (Some sample_user) (Inl network_failure) users_me
        sample_world
      = (Inr users_me,
         console_warn ''Error setting auth token on request:''
           (console_error ''Error getting fresh Firebase token:''
             (call_provider (GetIdToken True) sample_world)))"
    by (simp add: request_interceptor_def try_catch_def attach_token_def fresh_token_def
        token_catch_def cached_fallback_def read_cached_def warn_catch_def storage_denied_def
        Let_def)
  with request_interceptor_never_rejects [of storage_denied "Some sample_user"
      "Inl network_failure" users_me sample_world "Inl unauthorized"]
  show ?thesis by (simp add: console_simps sample_world_def)
qed

text \<open>
  The mint succeeds, but the write to the store and then the read in the inner \<open>catch\<close>
  throw: the fresh token stays attached.
\<close>

lemma request_interceptor_write_denied:
  "fst (request_interceptor storage_denied (Some sample_user) (Inr (Some '' fresh ''))
        users_me sample_world)
     = Inr (users_me \<lparr> headers :=
              (headers users_me)(''Authorization'' \<mapsto> ''Bearer fresh'') \<rparr>)
   \<and> firebaseToken (snd (request_interceptor storage_denied (Some sample_user)
        (Inr (Some '' fresh '')) users_me sample_world)) = Some ''cached-token''"
  by (simp add: request_interceptor_def try_catch_def attach_token_def fresh_token_def
      token_catch_def cached_fallback_def read_cached_def warn_catch_def storage_denied_def
      set_authorization_def trim_def js_whitespace_def Let_def firebaseToken_simps
      sample_world_def)

section \<open>Login and registration\<close>

lemma login_signIn_error:
  "fst (login (Inl e) tok1 tok2 em password w) = Inl e
   \<and> firebaseToken (snd (login (Inl e) tok1 tok2 em password w)) = firebaseToken w"
  by (simp add: login_def loginWithEmailPassword_def Let_def firebaseToken_simps)

lemma login_token_error:
  "fst (login (Inr (Some u)) tok1 (Inl e) em password w) = Inl e"
  by (cases tok1) (simp_all add: login_def loginWithEmailPassword_def Let_def)

lemma login_success:
  "login (Inr (Some u)) tok1 (Inr t) em password w = (Inr True, w') \<Longrightarrow>
   firebaseToken w' = Some t"
  by (cases tok1) (auto simp: login_def loginWithEmailPassword_def Let_def firebaseToken_simps)

lemma login_success_result:
  "fst (login (Inr (Some u)) tok1 (Inr t) em password w) = Inr True
   \<and> firebaseToken (snd (login (Inr (Some u)) tok1 (Inr t) em password w)) = Some t"
  by (cases tok1) (simp_all add: login_def loginWithEmailPassword_def Let_def firebaseToken_simps)

lemma register_signUp_error:
  "fst (register (Inl e) upd tok1 tok2 em password displayName w) = Inl e
   \<and> firebaseToken (snd (register (Inl e) upd tok1 tok2 em password displayName w))
       = firebaseToken w"
  by (simp add: register_def registerWithEmailPassword_def Let_def firebaseToken_simps)

lemma registerWithEmailPassword_user:
  "fst (registerWithEmailPassword (Inr (Some u)) None tok1 em password displayName w)
     = Inr (Some u)"
  by (cases tok1; cases "js_truthy displayName"; cases displayName)
    (simp_all add: registerWithEmailPassword_def Let_def js_truthy_def)

lemma register_success_result:
  "fst (register (Inr (Some u)) None tok1 (Inr t) em password displayName w) = Inr True
   \<and> firebaseToken (snd (register (Inr (Some u)) None tok1 (Inr t) em password displayName w))
       = Some t"
  using registerWithEmailPassword_user [of u tok1 em password displayName w]
  by (cases "registerWithEmailPassword (Inr (Some u)) None tok1 em password displayName w")
    (simp add: register_def Let_def firebaseToken_simps)

lemma register_token_error:
  "fst (register (Inr (Some u)) None tok1 (Inl e) em password displayName w) = Inr False"
  using registerWithEmailPassword_user [of u tok1 em password displayName w]
  by (cases "registerWithEmailPassword (Inr (Some u)) None tok1 em password displayName w")
    (simp add: register_def Let_def)

text \<open>
  Claim C4, evaluated. When the sign-up succeeds and the following \<open>user.getIdToken()\<close>
  fails, \<open>register\<close> returns \<open>false\<close> where \<open>login\<close> throws the token error; and
  \<open>register\<close> asks for its token without the forced refresh that \<open>login\<close> uses.
\<close>

theorem register_swallows_token_error:
  "fst (register (Inr (Some sample_user)) None (Inr ''t1'') (Inl network_failure)
         ''student@example.org'' ''pw'' (Some ''Ann'') sample_world) = Inr False
   \<and> fst (login (Inr (Some sample_user)) (Inr ''t1'') (Inl network_failure)
         ''student@example.org'' ''pw'' sample_world) = Inl network_failure
   \<and> provider_calls (snd (register (Inr (Some sample_user)) None (Inr ''t1'') (Inr ''t2'')
         ''student@example.org'' ''pw'' (Some ''Ann'') sample_world))
       = [SignUp ''student@example.org'' ''pw'', UpdateProfile ''Ann'',
          GetIdToken True, GetIdToken False]
   \<and> provider_calls (snd (login (Inr (Some sample_user)) (Inr ''t1'') (Inr ''t2'')
         ''student@example.org'' ''pw'' sample_world))
       = [SignIn ''student@example.org'' ''pw'', GetIdToken True, GetIdToken True]"
  by (simp add: register_def registerWithEmailPassword_def login_def
      loginWithEmailPassword_def Let_def js_truthy_def sample_world_def
      call_provider_def setItem_def console_error_def)

section \<open>Protected routes\<close>

lemma ProtectedRoute_never_spinner: "ProtectedRoute cu (cu \<noteq> None) \<noteq> Spinner"
  by (simp add: ProtectedRoute_def)

lemma AuthProvider_protected_cases:
  "(loading s \<longrightarrow> AuthProvider_protected s = Nothing)
   \<and> (\<not> loading s \<and> firebaseUser s = None \<longrightarrow>
        AuthProvider_protected s = Navigate ''/login'')
   \<and> (\<not> loading s \<and> firebaseUser s \<noteq> None \<longrightarrow> AuthProvider_protected s = Children)"
  by (simp add: AuthProvider_protected_def ProtectedRoute_def)

text \<open>
  Claim C5, evaluated. In the initial state, before any principal notification, a
  protected route renders nothing, not the spinner; \<open>ProtectedRoute\<close> itself, given the
  context value of that state, answers with the redirect, so its branch under the
  comment "Show loading state while authentication state is being determined" is never
  taken. And when the subscription reports an error before any principal notification,
  \<open>loading\<close> ends with the session still unknown, and the route redirects to \<open>/login\<close>.
\<close>

theorem protected_route_unknown_state:
  "loading initial_auth_state
   \<and> firebaseUser initial_auth_state = None
   \<and> AuthProvider_protected initial_auth_state = Nothing
   \<and> ProtectedRoute (firebaseUser initial_auth_state) (firebaseUser initial_auth_state \<noteq> None)
       = Navigate ''/login''
   \<and> AuthProvider_protected (snd (onAuthStateChanged_error (sample_world, initial_auth_state)))
       = Navigate ''/login''"
  by (simp add: initial_auth_state_def AuthProvider_protected_def ProtectedRoute_def
      onAuthStateChanged_error_def)

section \<open>The principal-change callback\<close>

text \<open>
  Claim C6. When the notification carries a principal and the mint fails, the callback
  logs the failure and the credential store holds what it held before; when the
  notification carries no principal, the store is emptied.
\<close>

theorem passive_refresh_keeps_or_clears:
  "(user \<noteq> None \<and> (\<exists>e. tok = Inl e) \<longrightarrow>
      firebaseToken (fst (onAuthStateChanged_callback user tok vfaults vuser vtok vbackend (w, s)))
        = firebaseToken w
      \<and> console (fst (onAuthStateChanged_callback user tok vfaults vuser vtok vbackend (w, s)))
        = console w @ [''AuthContext: Error getting fresh token:''])
   \<and> (user = None \<longrightarrow>
      firebaseToken (fst (onAuthStateChanged_callback user tok vfaults vuser vtok vbackend (w, s)))
        = None)"
  by (auto simp: onAuthStateChanged_callback_def Let_def firebaseToken_simps console_simps)

theorem passive_refresh_keeps_or_clears_witness:
  "Some sample_user \<noteq> None
   \<and> (\<exists>e. (Inl network_failure :: js_error + string) = Inl e)
   \<and> firebaseToken (fst (onAuthStateChanged_callback (Some sample_user) (Inl network_failure)
        no_faults (Some sample_user) (Inl network_failure) (Inl unauthorized)
        (sample_world, initial_auth_state))) = Some ''cached-token''
   \<and> console (fst (onAuthStateChanged_callback (Some sample_user) (Inl network_failure)
        no_faults (Some sample_user) (Inl network_failure) (Inl unauthorized)
        (sample_world, initial_auth_state))) = [''AuthContext: Error getting fresh token:'']
   \<and> firebaseToken (fst (onAuthStateChanged_callback None (Inl network_failure)
        no_faults None (Inl network_failure) (Inl unauthorized)
        (sample_world, initial_auth_state))) = None"
proof -
  have h1: "Some sample_user \<noteq> None" by simp
  have h2: "\<exists>e. (Inl network_failure :: js_error + string) = Inl e" by simp
  have w: "firebaseToken sample_world = Some ''cached-token''" "console sample_world = []"
    by (simp_all add: sample_world_def)
  from passive_refresh_keeps_or_clears [of "Some sample_user" "Inl network_failure"
      no_faults "Some sample_user" "Inl network_failure" "Inl unauthorized" sample_world
      initial_auth_state]
    passive_refresh_keeps_or_clears [of None "Inl network_failure"
      no_faults None "Inl network_failure" "Inl unauthorized" sample_world initial_auth_state]
    h1 h2 w
  show ?thesis by simp
qed

end
